theory Spec2Isabelle
  imports Complex_Main "HOL-Library.AList"
begin

section \<open>The key-mapper daemon (keymapper/daemon.py)\<close>

text \<open>
  A shallow embedding of the orchestration core of the key-mapper service:
  \<^verbatim>\<open>path_to_device_name\<close>, the class \<^verbatim>\<open>AutoloadHistory\<close> and the methods of the
  class \<^verbatim>\<open>Daemon\<close> that start, stop and autoload injections.

  Python dictionaries whose keys are iterated (\<^verbatim>\<open>self.injectors\<close>, the result of
  \<^verbatim>\<open>get_devices()\<close>, the autoload table of the configuration) are association lists
  in insertion order; the autoload history, which is only looked up, is a map.
  Timestamps, which Python reads with \<^verbatim>\<open>time.time()\<close>, are real numbers. Every
  call of \<^verbatim>\<open>time.time()\<close> is one reading of a clock that is part of the state: the
  clock of the state is the sequence of values that the successive readings return.
\<close>

subsection \<open>Collaborators of the daemon\<close>

text \<open>The lifecycle states an injector reports; \<^verbatim>\<open>UNKNOWN\<close> is what
  \<^verbatim>\<open>Daemon.get_state\<close> answers for a device without an injector.\<close>

datatype injector_state = UNKNOWN | STARTING | RUNNING | STOPPED

text \<open>The exceptions of the collaborators that the daemon catches.\<close>

datatype error = FileNotFoundError | OSError

text \<open>A loaded preset (\<^verbatim>\<open>keymapper.mapping.Mapping\<close>): the daemon only hands it to the
  injector, so its content is kept as a table from key to output symbol.\<close>

type_synonym mapping = "(string \<times> string) list"

text \<open>Modelled from the spec: the class \<^verbatim>\<open>Injector\<close> of
  \<^verbatim>\<open>keymapper.injection.injector\<close> is not part of the sources at hand. A pipeline
  handle is constructed from a device and a loaded mapping, reports a lifecycle state,
  and can be started and told to stop. Every injector object is referenced by exactly
  one entry of \<^verbatim>\<open>Daemon.injectors\<close>, so the registry stores it by value.\<close>

record injector =
  inj_device :: string
  inj_mapping :: mapping
  inj_state :: injector_state

text \<open>A value stored in the configuration (decoded JSON).\<close>

datatype json = JNull | JBool bool | JNum int | JStr string

text \<open>What a path of the file system holds, already decoded.\<close>

datatype file_content =
    Manifest "(string \<times> json) list"
  | Preset mapping
  | Xmodmap "(string \<times> nat) list"
  | Other

text \<open>The calls that the claims observe, in the order in which they happen.\<close>

datatype event =
    Ev_refresh_devices
  | Ev_start_injecting string string
  | Ev_remember string string
  | Ev_load_config string
  | Ev_save_config string

subsection \<open>The state\<close>

text \<open>
  The first four fields are the attributes of the \<^verbatim>\<open>Daemon\<close> object
  (\<^verbatim>\<open>autoload_history\<close> is the dictionary inside its \<^verbatim>\<open>AutoloadHistory\<close>). The other
  fields are the process-wide objects and the environment the daemon works on:
  the snapshot \<^verbatim>\<open>get_devices()\<close> returns and the groups a re-enumeration of the
  hardware would find, the configuration object, the system mapping, the file system,
  the clock, whether the operating system refuses to start a pipeline for a device, and
  the trace of observed calls.
\<close>

record state =
  injectors :: "(string \<times> injector) list"
  config_dir :: "string option"
  autoload_history :: "string \<rightharpoonup> (real \<times> string)"
  refreshed_devices_at :: real
  get_devices :: "(string \<times> string list) list"
  connected :: "(string \<times> string list) list"
  config_path :: string
  config_autoload :: "(string \<times> json) list"
  system_mapping :: "string \<rightharpoonup> nat"
  files :: "string \<rightharpoonup> file_content"
  clock :: "nat \<Rightarrow> real"
  clock_reads :: nat
  injector_os_error :: "string \<Rightarrow> bool"
  trace :: "event list"

text \<open>\<^verbatim>\<open>time.time()\<close>: the next reading of the clock.\<close>

definition time_time :: "state \<Rightarrow> real \<times> state" where
  "time_time s = (clock s (clock_reads s), s\<lparr>clock_reads := Suc (clock_reads s)\<rparr>)"

definition log_event :: "event \<Rightarrow> state \<Rightarrow> state" where
  "log_event e s = s\<lparr>trace := trace s @ [e]\<rparr>"

subsection \<open>Strings and paths\<close>

text \<open>\<^verbatim>\<open>str.startswith\<close>.\<close>

definition startswith :: "string \<Rightarrow> string \<Rightarrow> bool" where
  "startswith s p = (take (length p) s = p)"

definition DEV_INPUT :: string where
  "DEV_INPUT = ''/dev/input/''"

text \<open>\<^verbatim>\<open>os.path.join\<close> of \<^verbatim>\<open>posixpath\<close>: an absolute component discards what came
  before it; otherwise components are joined by one slash.\<close>

fun path_join_loop :: "string \<Rightarrow> string list \<Rightarrow> string" where
  "path_join_loop path [] = path"
| "path_join_loop path (b # p) =
     (if startswith b ''/'' then path_join_loop b p
      else if path = [] \<or> last path = CHR ''/'' then path_join_loop (path @ b) p
      else path_join_loop (path @ ''/'' @ b) p)"

definition path_join :: "string \<Rightarrow> string list \<Rightarrow> string" where
  "path_join a p = path_join_loop a p"

text \<open>\<^verbatim>\<open>os.path.exists\<close>.\<close>

definition path_exists :: "state \<Rightarrow> string \<Rightarrow> bool" where
  "path_exists s path = (files s path \<noteq> None)"

text \<open>Modelled from the spec: the constant \<^verbatim>\<open>XMODMAP_FILENAME\<close> of
  \<^verbatim>\<open>keymapper.state\<close> is not part of the sources at hand. It names a fixed file of
  the configuration directory; the tests of the daemon write it as \<^verbatim>\<open>xmodmap\<close>.\<close>

definition XMODMAP_FILENAME :: string where
  "XMODMAP_FILENAME = ''xmodmap''"

subsection \<open>Device identity resolution\<close>

text \<open>The two nested loops of \<^verbatim>\<open>path_to_device_name\<close> over the groups and their
  paths: the first group, in the order of the dictionary, that lists the path.\<close>

fun find_group :: "(string \<times> string list) list \<Rightarrow> string \<Rightarrow> string option" where
  "find_group [] path = None"
| "find_group ((device, paths) # rest) path =
     (if path \<in> set paths then Some device else find_group rest path)"

text \<open>\<^verbatim>\<open>path_to_device_name(path)\<close>, with the snapshot of \<^verbatim>\<open>get_devices()\<close> as an
  argument; \<open>None\<close> is Python's \<^verbatim>\<open>None\<close>.\<close>

definition path_to_device_name :: "(string \<times> string list) list \<Rightarrow> string \<Rightarrow> string option" where
  "path_to_device_name groups path =
     (if \<not> startswith path DEV_INPUT then Some path
      else find_group groups path)"

text \<open>\<^verbatim>\<open>device in get_devices()\<close>.\<close>

definition known_device :: "state \<Rightarrow> string \<Rightarrow> bool" where
  "known_device s device = (device \<in> set (map fst (get_devices s)))"

subsection \<open>AutoloadHistory\<close>

text \<open>\<^verbatim>\<open>AutoloadHistory.remember\<close>.\<close>

definition remember :: "string \<Rightarrow> string \<Rightarrow> state \<Rightarrow> state" where
  "remember device preset s =
     (let (now, s1) = time_time (log_event (Ev_remember device preset) s)
      in s1\<lparr>autoload_history := (autoload_history s1)(device \<mapsto> (now, preset))\<rparr>)"

text \<open>\<^verbatim>\<open>AutoloadHistory.forget\<close>.\<close>

definition forget :: "string \<Rightarrow> state \<Rightarrow> state" where
  "forget device s =
     (if autoload_history s device \<noteq> None
      then s\<lparr>autoload_history := (autoload_history s)(device := None)\<rparr>
      else s)"

text \<open>\<^verbatim>\<open>AutoloadHistory.may_autoload\<close>: the clock is read only when the device has
  an entry with the same preset.\<close>

definition may_autoload :: "string \<Rightarrow> string \<Rightarrow> state \<Rightarrow> bool \<times> state" where
  "may_autoload device preset s =
     (case autoload_history s device of
        None \<Rightarrow> (True, s)
      | Some entry \<Rightarrow>
          if snd entry \<noteq> preset then (True, s)
          else let (now, s1) = time_time s;
                   threshold = 15
               in if fst entry < now - threshold then (True, s1) else (False, s1))"

subsection \<open>Daemon\<close>

text \<open>\<^verbatim>\<open>Daemon.__init__\<close>: the attributes of a new daemon, in a given environment.\<close>

definition Daemon_init :: "state \<Rightarrow> state" where
  "Daemon_init env =
     env\<lparr>injectors := [], config_dir := None, autoload_history := Map.empty,
         refreshed_devices_at := 0\<rparr>"

text \<open>Modelled from the spec: \<^verbatim>\<open>refresh_devices()\<close> of \<^verbatim>\<open>keymapper.getdevices\<close> is
  not part of the sources at hand. A forced refresh replaces the snapshot by the groups
  that are connected now.\<close>

definition getdevices_refresh_devices :: "state \<Rightarrow> state" where
  "getdevices_refresh_devices s =
     (log_event Ev_refresh_devices s)\<lparr>get_devices := connected s\<rparr>"

text \<open>The \<^verbatim>\<open>for ... else\<close> loop of \<^verbatim>\<open>Daemon.refresh_devices\<close> over the groups:
  true when the loop leaves with \<^verbatim>\<open>break\<close>.\<close>

fun path_in_groups :: "(string \<times> string list) list \<Rightarrow> string \<Rightarrow> bool" where
  "path_in_groups [] device = False"
| "path_in_groups ((name, paths) # rest) device =
     (if device \<in> set paths then True else path_in_groups rest device)"

text \<open>\<^verbatim>\<open>Daemon.refresh_devices(device=None)\<close>.\<close>

definition refresh_devices :: "string option \<Rightarrow> state \<Rightarrow> state" where
  "refresh_devices device s0 =
     (let (now, s) = time_time s0 in
      if now - 10 > refreshed_devices_at s
      then (getdevices_refresh_devices s)\<lparr>refreshed_devices_at := now\<rparr>
      else case device of
        None \<Rightarrow> s
      | Some d \<Rightarrow>
          if startswith d DEV_INPUT
          then (if path_in_groups (get_devices s) d then s
                else (getdevices_refresh_devices s)\<lparr>refreshed_devices_at := now\<rparr>)
          else (if d \<notin> set (map fst (get_devices s))
                then (getdevices_refresh_devices s)\<lparr>refreshed_devices_at := now\<rparr>
                else s))"

text \<open>Modelled from the spec: \<^verbatim>\<open>Injector.stop_injecting\<close> asks the pipeline to stop;
  the handle then reports \<^verbatim>\<open>STOPPED\<close>.\<close>

definition Injector_stop_injecting :: "injector \<Rightarrow> injector" where
  "Injector_stop_injecting i = i\<lparr>inj_state := STOPPED\<rparr>"

text \<open>\<^verbatim>\<open>Daemon.stop_injecting\<close>. The method of the injector changes the object that
  the entry of the registry refers to; the entry itself stays.\<close>

definition stop_injecting :: "string \<Rightarrow> state \<Rightarrow> state" where
  "stop_injecting device s =
     (case map_of (injectors s) device of
        None \<Rightarrow> s
      | Some i \<Rightarrow>
          forget device
            (s\<lparr>injectors := AList.update device (Injector_stop_injecting i) (injectors s)\<rparr>))"

text \<open>\<^verbatim>\<open>Daemon.get_state\<close>.\<close>

definition get_state :: "state \<Rightarrow> string \<Rightarrow> injector_state" where
  "get_state s device =
     (case map_of (injectors s) device of None \<Rightarrow> UNKNOWN | Some i \<Rightarrow> inj_state i)"

text \<open>Modelled from the spec: \<^verbatim>\<open>config.load_config\<close>, \<^verbatim>\<open>config.get\<close>,
  \<^verbatim>\<open>config.remove\<close> and \<^verbatim>\<open>config.save_config\<close> of \<^verbatim>\<open>keymapper.config\<close> are not
  part of the sources at hand. The configuration object holds the autoload table of
  the manifest it was loaded from and the path it saves to.\<close>

definition config_load_config :: "string \<Rightarrow> state \<Rightarrow> state" where
  "config_load_config path s =
     (log_event (Ev_load_config path) s)
       \<lparr>config_path := path,
        config_autoload := (case files s path of Some (Manifest table) \<Rightarrow> table | _ \<Rightarrow> [])\<rparr>"

definition config_get_autoload :: "state \<Rightarrow> string \<Rightarrow> json option" where
  "config_get_autoload s device =
     (case map_of (config_autoload s) device of
        None \<Rightarrow> None
      | Some JNull \<Rightarrow> None
      | Some v \<Rightarrow> Some v)"

definition config_remove_autoload :: "string \<Rightarrow> state \<Rightarrow> state" where
  "config_remove_autoload device s =
     s\<lparr>config_autoload := AList.delete device (config_autoload s)\<rparr>"

definition config_save_config :: "state \<Rightarrow> state" where
  "config_save_config s =
     (log_event (Ev_save_config (config_path s)) s)
       \<lparr>files := (files s)(config_path s \<mapsto> Manifest (config_autoload s))\<rparr>"

text \<open>\<^verbatim>\<open>Daemon.set_config_dir\<close>.\<close>

definition set_config_dir :: "string \<Rightarrow> state \<Rightarrow> state" where
  "set_config_dir dir s =
     (let path = path_join dir [''config.json''] in
      if \<not> path_exists s path then s
      else config_load_config path (s\<lparr>config_dir := Some dir\<rparr>))"

text \<open>Modelled from the spec: \<^verbatim>\<open>Mapping.load\<close> of \<^verbatim>\<open>keymapper.mapping\<close> is not part
  of the sources at hand. Loading a preset fails with \<^verbatim>\<open>FileNotFoundError\<close> when the
  file is absent.\<close>

definition Mapping_load :: "state \<Rightarrow> string \<Rightarrow> error + mapping" where
  "Mapping_load s path =
     (case files s path of
        None \<Rightarrow> Inl FileNotFoundError
      | Some (Preset m) \<Rightarrow> Inr m
      | Some _ \<Rightarrow> Inr [])"

text \<open>The \<^verbatim>\<open>with open(xmodmap_path)\<close> block of \<^verbatim>\<open>start_injecting\<close>: the table of the
  file is merged into the system mapping; an absent file leaves it as it is.\<close>

definition load_xmodmap :: "string \<Rightarrow> state \<Rightarrow> state" where
  "load_xmodmap path s =
     (case files s path of
        None \<Rightarrow> s
      | Some (Xmodmap table) \<Rightarrow> s\<lparr>system_mapping := system_mapping s ++ map_of table\<rparr>
      | Some _ \<Rightarrow> s)"

text \<open>Modelled from the spec: constructing and starting an \<^verbatim>\<open>Injector\<close>. The handle
  reports \<^verbatim>\<open>STARTING\<close> right after the start; the operating system may refuse with
  \<^verbatim>\<open>OSError\<close>.\<close>

definition Injector_start :: "state \<Rightarrow> string \<Rightarrow> mapping \<Rightarrow> error + injector" where
  "Injector_start s device m =
     (if injector_os_error s device then Inl OSError
      else Inr \<lparr>inj_device = device, inj_mapping = m, inj_state = STARTING\<rparr>)"

text \<open>The path of a preset: \<^verbatim>\<open>os.path.join(config_dir, 'presets', device, f'{preset}.json')\<close>.\<close>

definition preset_path :: "string \<Rightarrow> string \<Rightarrow> string \<Rightarrow> string" where
  "preset_path dir device preset = path_join dir [''presets'', device, preset @ ''.json'']"

text \<open>The end of \<^verbatim>\<open>Daemon.start_injecting\<close>, once the preset is loaded: stop the
  injector the device has, read the xmodmap file, then construct, start and register
  the new injector.\<close>

definition replace_injector :: "string \<Rightarrow> string \<Rightarrow> mapping \<Rightarrow> state \<Rightarrow> bool \<times> state" where
  "replace_injector dir name m s =
     (let s1 = (if map_of (injectors s) name \<noteq> None then stop_injecting name s else s);
          s2 = load_xmodmap (path_join dir [XMODMAP_FILENAME]) s1
      in case Injector_start s2 name m of
           Inl e \<Rightarrow> (False, s2)
         | Inr i \<Rightarrow> (True, s2\<lparr>injectors := AList.update name i (injectors s2)\<rparr>))"

text \<open>\<^verbatim>\<open>Daemon.start_injecting\<close>. A device that resolves to \<^verbatim>\<open>None\<close> is not a key of
  \<^verbatim>\<open>get_devices()\<close>.\<close>

definition start_injecting :: "string \<Rightarrow> string \<Rightarrow> state \<Rightarrow> bool \<times> state" where
  "start_injecting device preset s0 =
     (let s = refresh_devices (Some device) (log_event (Ev_start_injecting device preset) s0)
      in case config_dir s of
           None \<Rightarrow> (False, s)
         | Some dir \<Rightarrow>
             (case path_to_device_name (get_devices s) device of
                None \<Rightarrow> (False, s)
              | Some name \<Rightarrow>
                  if \<not> known_device s name then (False, s)
                  else (case Mapping_load s (preset_path dir name preset) of
                          Inl e \<Rightarrow> (False, s)
                        | Inr m \<Rightarrow> replace_injector dir name m s)))"

text \<open>The end of \<^verbatim>\<open>Daemon._autoload\<close>, for a device with a preset to autoload.\<close>

definition autoload_preset :: "string \<Rightarrow> string \<Rightarrow> state \<Rightarrow> state" where
  "autoload_preset name preset s =
     (let (may, s1) = may_autoload name preset s
      in if \<not> may then s1
         else remember name preset (snd (start_injecting name preset s1)))"

text \<open>\<^verbatim>\<open>Daemon._autoload\<close>. A preset that is not a string is removed from the
  configuration, which is saved.\<close>

definition priv_autoload :: "string \<Rightarrow> state \<Rightarrow> state" where
  "priv_autoload device s0 =
     (let s = refresh_devices (Some device) s0
      in case path_to_device_name (get_devices s) device of
           None \<Rightarrow> s
         | Some name \<Rightarrow>
             if \<not> known_device s name then s
             else (case config_get_autoload s name of
                     None \<Rightarrow> s
                   | Some (JStr preset) \<Rightarrow> autoload_preset name preset s
                   | Some _ \<Rightarrow> config_save_config (config_remove_autoload name s)))"

text \<open>\<^verbatim>\<open>Daemon.stop_all\<close>: the loop over a copy of the keys of the registry.\<close>

fun stop_each :: "string list \<Rightarrow> state \<Rightarrow> state" where
  "stop_each [] s = s"
| "stop_each (device # rest) s = stop_each rest (stop_injecting device s)"

definition stop_all :: "state \<Rightarrow> state" where
  "stop_all s = stop_each (map fst (injectors s)) s"

subsection \<open>What the specification says about a refresh\<close>

text \<open>The words of the specification, to be compared with \<^verbatim>\<open>Daemon.refresh_devices\<close>:
  an identifier can be located in the snapshot by raw path membership when it is shaped
  like a path, and by lookup of the logical name otherwise.\<close>

definition spec_located :: "(string \<times> string list) list \<Rightarrow> string \<Rightarrow> bool" where
  "spec_located groups d =
     (if startswith d DEV_INPUT then (\<exists>(name, paths) \<in> set groups. d \<in> set paths)
      else d \<in> fst ` set groups)"

text \<open>A refresh is due when more than 10 seconds have elapsed since the last forced
  refresh, or when a device identifier was supplied that cannot be located.\<close>

definition spec_refresh_forced :: "string option \<Rightarrow> state \<Rightarrow> bool" where
  "spec_refresh_forced device s =
     (10 < clock s (clock_reads s) - refreshed_devices_at s \<or>
      (\<exists>d. device = Some d \<and> \<not> spec_located (get_devices s) d))"

subsection \<open>Observing the calls of an autoload\<close>

text \<open>The observed calls made between a state and a later one, apart from the
  refreshes of the registry.\<close>

definition calls_between :: "state \<Rightarrow> state \<Rightarrow> event list" where
  "calls_between s s' =
     filter (\<lambda>e. e \<noteq> Ev_refresh_devices) (drop (length (trace s)) (trace s'))"

text \<open>An identifier resolves to a device of the given groups: what
  \<^verbatim>\<open>path_to_device_name\<close> returns for it is one of their names.\<close>

definition resolves_to :: "(string \<times> string list) list \<Rightarrow> string \<Rightarrow> string \<Rightarrow> bool" where
  "resolves_to groups d name =
     (path_to_device_name groups d = Some name \<and> name \<in> set (map fst groups))"

subsection \<open>Example states\<close>

text \<open>A daemon that was just constructed, in an environment like the one of the tests:
  two known devices, a third one that is connected but not enumerated yet, a
  configuration directory with a manifest and one preset, and a clock that advances by
  one second with every reading.\<close>

definition fixture :: state where
  "fixture =
     \<lparr>injectors = [], config_dir = None, autoload_history = Map.empty,
      refreshed_devices_at = 0,
      get_devices = [(''device 1'', [''/dev/input/event11'', ''/dev/input/event13'']),
                     (''gamepad'', [''/dev/input/event30''])],
      connected = [(''device 1'', [''/dev/input/event11'', ''/dev/input/event13'']),
                   (''gamepad'', [''/dev/input/event30'']),
                   (''9876 name'', [''/dev/input/event9876''])],
      config_path = ''/home/user/config.json'',
      config_autoload = [(''device 1'', JStr ''preset7'')],
      system_mapping = Map.empty,
      files = [''/tmp/config.json'' \<mapsto> Manifest [(''device 1'', JStr ''preset7'')],
               ''/tmp/presets/device 1/preset7.json'' \<mapsto> Preset [(''a'', ''b'')]],
      clock = (\<lambda>n. 100 + real n),
      clock_reads = 0,
      injector_os_error = (\<lambda>_. False),
      trace = []\<rparr>"

text \<open>The same daemon with the configuration directory set, an injector running for
  the first device, and an autoload of ten seconds ago in the history.\<close>

definition fixture_running :: state where
  "fixture_running =
     fixture\<lparr>injectors :=
               [(''device 1'',
                 \<lparr>inj_device = ''device 1'', inj_mapping = [(''a'', ''b'')],
                  inj_state = RUNNING\<rparr>)],
             config_dir := Some ''/tmp'',
             autoload_history := [''device 1'' \<mapsto> (90, ''preset7'')]\<rparr>"

text \<open>The new daemon with a clock that shows 100 for its first three readings and
  the given time from then on: a first autoload happens at time 100, the next one at
  the given time.\<close>

definition fixture_at :: "real \<Rightarrow> state" where
  "fixture_at t = fixture\<lparr>clock := (\<lambda>n. if n < 3 then 100 else t)\<rparr>"

section \<open>Basic facts\<close>

lemma path_in_groups_iff:
  "path_in_groups groups d \<longleftrightarrow> (\<exists>(name, paths) \<in> set groups. d \<in> set paths)"
  by (induction groups d rule: path_in_groups.induct) auto

text \<open>\<^verbatim>\<open>Daemon.refresh_devices\<close> reads the clock once, and forces a refresh exactly when
  the specification says so.\<close>

lemma refresh_devices_eq:
  "refresh_devices device s =
     (if spec_refresh_forced device s
      then s\<lparr>clock_reads := Suc (clock_reads s), trace := trace s @ [Ev_refresh_devices],
             get_devices := connected s, refreshed_devices_at := clock s (clock_reads s)\<rparr>
      else s\<lparr>clock_reads := Suc (clock_reads s)\<rparr>)"
proof (cases device)
  case None
  then show ?thesis
    by (simp add: refresh_devices_def spec_refresh_forced_def time_time_def
        getdevices_refresh_devices_def log_event_def less_diff_eq)
next
  case (Some d)
  show ?thesis
  proof (cases "startswith d DEV_INPUT")
    case True
    with Some show ?thesis
      by (simp add: refresh_devices_def spec_refresh_forced_def spec_located_def time_time_def
          getdevices_refresh_devices_def log_event_def path_in_groups_iff less_diff_eq)
  next
    case False
    with Some show ?thesis
      by (simp add: refresh_devices_def spec_refresh_forced_def spec_located_def time_time_def
          getdevices_refresh_devices_def log_event_def less_diff_eq)
  qed
qed

lemma refresh_devices_frame [simp]:
  "injectors (refresh_devices device s) = injectors s"
  "config_dir (refresh_devices device s) = config_dir s"
  "autoload_history (refresh_devices device s) = autoload_history s"
  "connected (refresh_devices device s) = connected s"
  "config_path (refresh_devices device s) = config_path s"
  "config_autoload (refresh_devices device s) = config_autoload s"
  "system_mapping (refresh_devices device s) = system_mapping s"
  "files (refresh_devices device s) = files s"
  "clock (refresh_devices device s) = clock s"
  "clock_reads (refresh_devices device s) = Suc (clock_reads s)"
  "injector_os_error (refresh_devices device s) = injector_os_error s"
  by (simp_all add: refresh_devices_eq)

lemma log_event_frame [simp]:
  "injectors (log_event e s) = injectors s"
  "config_dir (log_event e s) = config_dir s"
  "autoload_history (log_event e s) = autoload_history s"
  "refreshed_devices_at (log_event e s) = refreshed_devices_at s"
  "get_devices (log_event e s) = get_devices s"
  "connected (log_event e s) = connected s"
  "config_path (log_event e s) = config_path s"
  "config_autoload (log_event e s) = config_autoload s"
  "system_mapping (log_event e s) = system_mapping s"
  "files (log_event e s) = files s"
  "clock (log_event e s) = clock s"
  "clock_reads (log_event e s) = clock_reads s"
  "injector_os_error (log_event e s) = injector_os_error s"
  "trace (log_event e s) = trace s @ [e]"
  by (simp_all add: log_event_def)

lemma spec_refresh_forced_log_event [simp]:
  "spec_refresh_forced device (log_event e s) = spec_refresh_forced device s"
  by (simp add: spec_refresh_forced_def)

lemma get_devices_refresh_log_event [simp]:
  "get_devices (refresh_devices device (log_event e s)) = get_devices (refresh_devices device s)"
  by (simp add: refresh_devices_eq)


lemma stop_injecting_lookup:
  "map_of (injectors (stop_injecting d s)) k =
     (if k = d then map_option Injector_stop_injecting (map_of (injectors s) k)
      else map_of (injectors s) k)"
  by (cases "map_of (injectors s) d")
     (simp_all add: stop_injecting_def forget_def update_conv')

lemma stop_injecting_history:
  "autoload_history (stop_injecting d s) k =
     (if k = d \<and> map_of (injectors s) d \<noteq> None then None else autoload_history s k)"
  by (cases "map_of (injectors s) d"; cases "autoload_history s d")
     (simp_all add: stop_injecting_def forget_def)

lemma Injector_stop_injecting_idem [simp]:
  "Injector_stop_injecting (Injector_stop_injecting i) = Injector_stop_injecting i"
  by (simp add: Injector_stop_injecting_def)



lemma stop_each_history:
  "autoload_history (stop_each ks s) k =
     (if k \<in> set ks \<and> map_of (injectors s) k \<noteq> None then None else autoload_history s k)"
  by (induction ks arbitrary: s)
     (auto simp: stop_injecting_lookup stop_injecting_history)

lemma registered_iff: "k \<in> set (map fst al) \<longleftrightarrow> map_of al k \<noteq> None"
  by (simp add: map_of_eq_None_iff)

lemma stop_injecting_frame [simp]:
  "config_dir (stop_injecting d s) = config_dir s"
  "refreshed_devices_at (stop_injecting d s) = refreshed_devices_at s"
  "get_devices (stop_injecting d s) = get_devices s"
  "connected (stop_injecting d s) = connected s"
  "config_path (stop_injecting d s) = config_path s"
  "config_autoload (stop_injecting d s) = config_autoload s"
  "system_mapping (stop_injecting d s) = system_mapping s"
  "files (stop_injecting d s) = files s"
  "clock (stop_injecting d s) = clock s"
  "clock_reads (stop_injecting d s) = clock_reads s"
  "injector_os_error (stop_injecting d s) = injector_os_error s"
  "trace (stop_injecting d s) = trace s"
  by (simp_all add: stop_injecting_def forget_def split: option.split)

lemma load_xmodmap_frame [simp]:
  "injectors (load_xmodmap path s) = injectors s"
  "config_dir (load_xmodmap path s) = config_dir s"
  "autoload_history (load_xmodmap path s) = autoload_history s"
  "refreshed_devices_at (load_xmodmap path s) = refreshed_devices_at s"
  "get_devices (load_xmodmap path s) = get_devices s"
  "connected (load_xmodmap path s) = connected s"
  "config_path (load_xmodmap path s) = config_path s"
  "config_autoload (load_xmodmap path s) = config_autoload s"
  "files (load_xmodmap path s) = files s"
  "clock (load_xmodmap path s) = clock s"
  "clock_reads (load_xmodmap path s) = clock_reads s"
  "injector_os_error (load_xmodmap path s) = injector_os_error s"
  "trace (load_xmodmap path s) = trace s"
  by (simp_all add: load_xmodmap_def split: option.split file_content.split)

lemma replace_injector_frame [simp]:
  "config_dir (snd (replace_injector dir name m s)) = config_dir s"
  "refreshed_devices_at (snd (replace_injector dir name m s)) = refreshed_devices_at s"
  "get_devices (snd (replace_injector dir name m s)) = get_devices s"
  "connected (snd (replace_injector dir name m s)) = connected s"
  "config_path (snd (replace_injector dir name m s)) = config_path s"
  "config_autoload (snd (replace_injector dir name m s)) = config_autoload s"
  "files (snd (replace_injector dir name m s)) = files s"
  "clock (snd (replace_injector dir name m s)) = clock s"
  "clock_reads (snd (replace_injector dir name m s)) = clock_reads s"
  "injector_os_error (snd (replace_injector dir name m s)) = injector_os_error s"
  "trace (snd (replace_injector dir name m s)) = trace s"
  by (simp_all add: replace_injector_def Let_def split: sum.split)

text \<open>What \<^verbatim>\<open>start_injecting\<close> leaves alone: it logs its call, refreshes, and then changes
  at most the registry, the history and the system mapping.\<close>

lemma start_injecting_frame [simp]:
  "config_dir (snd (start_injecting d p s)) = config_dir s"
  "get_devices (snd (start_injecting d p s)) = get_devices (refresh_devices (Some d) s)"
  "connected (snd (start_injecting d p s)) = connected s"
  "config_path (snd (start_injecting d p s)) = config_path s"
  "config_autoload (snd (start_injecting d p s)) = config_autoload s"
  "files (snd (start_injecting d p s)) = files s"
  "clock (snd (start_injecting d p s)) = clock s"
  "clock_reads (snd (start_injecting d p s)) = Suc (clock_reads s)"
  "injector_os_error (snd (start_injecting d p s)) = injector_os_error s"
  by (simp_all add: start_injecting_def Let_def split: option.split sum.split)

lemma start_injecting_trace_eq:
  "trace (snd (start_injecting d p s)) =
     trace (refresh_devices (Some d) (log_event (Ev_start_injecting d p) s))"
  by (simp add: start_injecting_def Let_def split: option.split sum.split)

lemma may_autoload_frame [simp]:
  "injectors (snd (may_autoload d p s)) = injectors s"
  "config_dir (snd (may_autoload d p s)) = config_dir s"
  "autoload_history (snd (may_autoload d p s)) = autoload_history s"
  "refreshed_devices_at (snd (may_autoload d p s)) = refreshed_devices_at s"
  "get_devices (snd (may_autoload d p s)) = get_devices s"
  "connected (snd (may_autoload d p s)) = connected s"
  "config_path (snd (may_autoload d p s)) = config_path s"
  "config_autoload (snd (may_autoload d p s)) = config_autoload s"
  "files (snd (may_autoload d p s)) = files s"
  "clock (snd (may_autoload d p s)) = clock s"
  "injector_os_error (snd (may_autoload d p s)) = injector_os_error s"
  "trace (snd (may_autoload d p s)) = trace s"
  by (simp_all add: may_autoload_def time_time_def Let_def split: option.split)

lemma may_autoload_same_preset:
  "autoload_history s d = Some (t, p) \<Longrightarrow>
     may_autoload d p s =
       (t < clock s (clock_reads s) - 15, s\<lparr>clock_reads := Suc (clock_reads s)\<rparr>)"
  by (simp add: may_autoload_def time_time_def)

lemma remember_frame [simp]:
  "injectors (remember d p s) = injectors s"
  "config_dir (remember d p s) = config_dir s"
  "autoload_history (remember d p s) = (autoload_history s)(d \<mapsto> (clock s (clock_reads s), p))"
  "refreshed_devices_at (remember d p s) = refreshed_devices_at s"
  "get_devices (remember d p s) = get_devices s"
  "connected (remember d p s) = connected s"
  "config_path (remember d p s) = config_path s"
  "config_autoload (remember d p s) = config_autoload s"
  "files (remember d p s) = files s"
  "clock (remember d p s) = clock s"
  "clock_reads (remember d p s) = Suc (clock_reads s)"
  "injector_os_error (remember d p s) = injector_os_error s"
  "trace (remember d p s) = trace s @ [Ev_remember d p]"
  by (simp_all add: remember_def time_time_def log_event_def)

lemma refresh_devices_trace:
  "\<exists>r. trace (refresh_devices device s) = trace s @ r \<and>
       filter (\<lambda>e. e \<noteq> Ev_refresh_devices) r = []"
  by (simp add: refresh_devices_eq)

lemma refresh_devices_snapshot:
  "get_devices (refresh_devices device s) = get_devices s \<or>
   get_devices (refresh_devices device s) = connected s"
  by (simp add: refresh_devices_eq)

lemma config_get_autoload_eq:
  "config_autoload s' = config_autoload s \<Longrightarrow>
     config_get_autoload s' name = config_get_autoload s name"
  by (simp add: config_get_autoload_def)

text \<open>The two ways a call of \<^verbatim>\<open>_autoload\<close> ends for a known device with a preset.\<close>

lemma priv_autoload_approved:
  assumes "resolves_to (get_devices (refresh_devices (Some d) s)) d name"
    and "config_get_autoload s name = Some (JStr p)"
    and "fst (may_autoload name p (refresh_devices (Some d) s))"
  shows "priv_autoload d s =
           remember name p (snd (start_injecting name p
             (snd (may_autoload name p (refresh_devices (Some d) s)))))"
proof -
  let ?a = "refresh_devices (Some d) s"
  have "config_get_autoload ?a name = Some (JStr p)"
    using assms(2) by (simp add: config_get_autoload_eq [of ?a s])
  with assms(1,3) show ?thesis
    by (simp add: priv_autoload_def Let_def resolves_to_def known_device_def
        autoload_preset_def split_beta)
qed

lemma priv_autoload_suppressed:
  assumes "resolves_to (get_devices (refresh_devices (Some d) s)) d name"
    and "config_get_autoload s name = Some (JStr p)"
    and "\<not> fst (may_autoload name p (refresh_devices (Some d) s))"
  shows "priv_autoload d s = snd (may_autoload name p (refresh_devices (Some d) s))"
proof -
  let ?a = "refresh_devices (Some d) s"
  have "config_get_autoload ?a name = Some (JStr p)"
    using assms(2) by (simp add: config_get_autoload_eq [of ?a s])
  with assms(1,3) show ?thesis
    by (simp add: priv_autoload_def Let_def resolves_to_def known_device_def
        autoload_preset_def split_beta)
qed


lemma calls_between_append:
  "trace s' = trace s @ x \<Longrightarrow>
     calls_between s s' = filter (\<lambda>e. e \<noteq> Ev_refresh_devices) x"
  by (simp add: calls_between_def)

lemma start_injecting_trace:
  "\<exists>r. trace (snd (start_injecting d p s)) = trace s @ Ev_start_injecting d p # r \<and>
       filter (\<lambda>e. e \<noteq> Ev_refresh_devices) r = []"
  using refresh_devices_trace [of "Some d" "log_event (Ev_start_injecting d p) s"]
  by (auto simp: start_injecting_trace_eq)

text \<open>An approved call: \<^verbatim>\<open>start_injecting\<close> is invoked, then the attempt is recorded
  with the last reading of the clock.\<close>

lemma priv_autoload_approved_effect:
  assumes "resolves_to (get_devices (refresh_devices (Some d) s)) d name"
    and "config_get_autoload s name = Some (JStr p)"
    and "fst (may_autoload name p (refresh_devices (Some d) s))"
  shows "\<exists>r1 r2. trace (priv_autoload d s) =
             trace s @ r1 @ Ev_start_injecting name p # r2 @ [Ev_remember name p] \<and>
           filter (\<lambda>e. e \<noteq> Ev_refresh_devices) r1 = [] \<and>
           filter (\<lambda>e. e \<noteq> Ev_refresh_devices) r2 = []"
    and "autoload_history (priv_autoload d s) name =
           Some (clock s (clock_reads (priv_autoload d s) - 1), p)"
    and "clock (priv_autoload d s) = clock s"
    and "connected (priv_autoload d s) = connected s"
    and "config_autoload (priv_autoload d s) = config_autoload s"
    and "get_devices (priv_autoload d s) = get_devices (refresh_devices (Some d) s) \<or>
         get_devices (priv_autoload d s) = connected s"
proof -
  let ?a = "refresh_devices (Some d) s"
  let ?b = "snd (may_autoload name p ?a)"
  let ?c = "snd (start_injecting name p ?b)"
  have run: "priv_autoload d s = remember name p ?c"
    by (rule priv_autoload_approved [OF assms])
  obtain r1 where r1: "trace ?a = trace s @ r1"
    "filter (\<lambda>e. e \<noteq> Ev_refresh_devices) r1 = []"
    using refresh_devices_trace by blast
  obtain r2 where r2: "trace ?c = trace ?b @ Ev_start_injecting name p # r2"
    "filter (\<lambda>e. e \<noteq> Ev_refresh_devices) r2 = []"
    using start_injecting_trace by blast
  have "trace (priv_autoload d s) =
      trace s @ r1 @ Ev_start_injecting name p # r2 @ [Ev_remember name p]"
    by (simp add: run r2(1) r1(1))
  with r1(2) r2(2)
  show "\<exists>r1 r2. trace (priv_autoload d s) =
             trace s @ r1 @ Ev_start_injecting name p # r2 @ [Ev_remember name p] \<and>
           filter (\<lambda>e. e \<noteq> Ev_refresh_devices) r1 = [] \<and>
           filter (\<lambda>e. e \<noteq> Ev_refresh_devices) r2 = []"
    by blast
  show "autoload_history (priv_autoload d s) name =
      Some (clock s (clock_reads (priv_autoload d s) - 1), p)"
    by (simp add: run)
  show "clock (priv_autoload d s) = clock s"
    "connected (priv_autoload d s) = connected s"
    "config_autoload (priv_autoload d s) = config_autoload s"
    by (simp_all add: run)
  show "get_devices (priv_autoload d s) = get_devices ?a \<or>
      get_devices (priv_autoload d s) = connected s"
    using refresh_devices_snapshot [of "Some name" ?b] by (simp add: run)
qed










text \<open>The definitions that evaluate the model on the example states.\<close>

lemmas eval_defs = set_config_dir_def fixture_def fixture_running_def path_join_def startswith_def
    path_exists_def config_load_config_def log_event_def
    start_injecting_def refresh_devices_def time_time_def getdevices_refresh_devices_def
    DEV_INPUT_def path_to_device_name_def known_device_def Mapping_load_def preset_path_def
    replace_injector_def load_xmodmap_def XMODMAP_FILENAME_def Injector_start_def Let_def
    stop_injecting_def forget_def Injector_stop_injecting_def stop_all_def get_state_def

lemmas autoload_eval_defs = fixture_at_def priv_autoload_def autoload_preset_def
  may_autoload_def remember_def config_get_autoload_def resolves_to_def calls_between_def

section \<open>Device identity resolution is idempotent\<close>

text \<open>
  C9. An identifier that does not start with the prefix of raw device paths is returned
  unchanged. Hence, whenever resolving an identifier yields a logical name (a name that
  is not shaped like a raw path), resolving that name again yields the same name.
\<close>

theorem path_to_device_name_idempotent:
  "(\<not> startswith x DEV_INPUT \<longrightarrow> path_to_device_name groups x = Some x) \<and>
   (path_to_device_name groups x = Some name \<and> \<not> startswith name DEV_INPUT \<longrightarrow>
      path_to_device_name groups name = path_to_device_name groups x)"
  by (simp add: path_to_device_name_def)

text \<open>The name of a device is returned as it is; a path of the first device resolves
  to the name of the device, and that name resolves to itself.\<close>

theorem path_to_device_name_idempotent_witness:
  "\<not> startswith ''asdf'' DEV_INPUT \<and>
   path_to_device_name (get_devices fixture) ''asdf'' = Some ''asdf'' \<and>
   path_to_device_name (get_devices fixture) ''/dev/input/event13'' = Some ''device 1'' \<and>
   \<not> startswith ''device 1'' DEV_INPUT \<and>
   path_to_device_name (get_devices fixture) ''device 1'' = Some ''device 1''"
  using path_to_device_name_idempotent [of "''asdf''" "get_devices fixture"]
    path_to_device_name_idempotent
      [of "''/dev/input/event13''" "get_devices fixture" "''device 1''"]
  by (simp add: fixture_def startswith_def DEV_INPUT_def path_to_device_name_def)

section \<open>The debounce policy of the autoload history\<close>

text \<open>
  C2. \<^verbatim>\<open>may_autoload(device, preset)\<close> is true exactly when the device has no entry
  in the history, or the stored preset differs from the requested one, or the stored
  timestamp is strictly older than the time of the call minus 15 seconds. In particular
  it is true for a device without an entry; and right after
  \<^verbatim>\<open>remember(device, preset)\<close> it is false for the same device and preset unless the
  clock has advanced by more than 15 seconds, and true for every other preset.
\<close>

theorem may_autoload_iff:
  "(fst (may_autoload device preset s) \<longleftrightarrow>
      autoload_history s device = None \<or>
      (\<exists>ts stored. autoload_history s device = Some (ts, stored) \<and>
         (stored \<noteq> preset \<or> ts < clock s (clock_reads s) - 15))) \<and>
   (autoload_history s device = None \<longrightarrow> fst (may_autoload device preset s)) \<and>
   (fst (may_autoload device preset (remember device preset s)) \<longleftrightarrow>
      clock s (clock_reads s) < clock s (Suc (clock_reads s)) - 15) \<and>
   (other \<noteq> preset \<longrightarrow> fst (may_autoload device other (remember device preset s)))"
  by (auto simp: may_autoload_def remember_def time_time_def log_event_def
      split: option.splits)

text \<open>With a clock that advances by one second per reading, the autoload that was just
  remembered is suppressed, another preset is not; an entry of ten seconds ago suppresses
  the same preset, and a device without an entry may autoload.\<close>

theorem may_autoload_iff_witness:
  "autoload_history fixture ''device 1'' = None \<and>
   fst (may_autoload ''device 1'' ''preset7'' fixture) \<and>
   \<not> fst (may_autoload ''device 1'' ''preset7'' (remember ''device 1'' ''preset7'' fixture)) \<and>
   ''preset8'' \<noteq> ''preset7'' \<and>
   fst (may_autoload ''device 1'' ''preset8'' (remember ''device 1'' ''preset7'' fixture)) \<and>
   \<not> fst (may_autoload ''device 1'' ''preset7'' fixture_running)"
  using may_autoload_iff [of "''device 1''" "''preset7''" fixture "''preset8''"]
    may_autoload_iff [of "''device 1''" "''preset7''" fixture_running]
  by (simp add: fixture_def fixture_running_def)

section \<open>Refreshing the device registry\<close>

text \<open>
  C8. \<^verbatim>\<open>refresh_devices(device)\<close> forces a refresh of the registry and sets the
  timestamp of the last refresh to the time of the call whenever more than 10 seconds
  have elapsed since the last forced refresh; within the 10 seconds it does so exactly
  when a device identifier was supplied that cannot be located in the snapshot. In every
  other case neither the snapshot nor the timestamp changes and no refresh is forced.
\<close>

theorem refresh_devices_when:
  "(spec_refresh_forced device s \<longrightarrow>
      trace (refresh_devices device s) = trace s @ [Ev_refresh_devices] \<and>
      get_devices (refresh_devices device s) = connected s \<and>
      refreshed_devices_at (refresh_devices device s) = clock s (clock_reads s)) \<and>
   (\<not> spec_refresh_forced device s \<longrightarrow>
      trace (refresh_devices device s) = trace s \<and>
      get_devices (refresh_devices device s) = get_devices s \<and>
      refreshed_devices_at (refresh_devices device s) = refreshed_devices_at s)"
  by (simp add: refresh_devices_eq)

text \<open>At time 100 a last refresh at time 0 is too old. With a last refresh at time 95,
  a known name forces nothing, and a path that no group lists forces a refresh.\<close>

theorem refresh_devices_when_witness:
  "spec_refresh_forced (Some ''device 1'') fixture \<and>
   trace (refresh_devices (Some ''device 1'') fixture) = [Ev_refresh_devices] \<and>
   refreshed_devices_at (refresh_devices (Some ''device 1'') fixture) = 100 \<and>
   \<not> spec_refresh_forced (Some ''device 1'') (fixture\<lparr>refreshed_devices_at := 95\<rparr>) \<and>
   trace (refresh_devices (Some ''device 1'') (fixture\<lparr>refreshed_devices_at := 95\<rparr>)) = [] \<and>
   refreshed_devices_at
     (refresh_devices (Some ''device 1'') (fixture\<lparr>refreshed_devices_at := 95\<rparr>)) = 95 \<and>
   spec_refresh_forced (Some ''/dev/input/event9876'')
     (fixture\<lparr>refreshed_devices_at := 95\<rparr>) \<and>
   trace (refresh_devices (Some ''/dev/input/event9876'')
     (fixture\<lparr>refreshed_devices_at := 95\<rparr>)) = [Ev_refresh_devices]"
  using refresh_devices_when [of "Some ''device 1''" fixture]
    refresh_devices_when [of "Some ''device 1''" "fixture\<lparr>refreshed_devices_at := 95\<rparr>"]
    refresh_devices_when
      [of "Some ''/dev/input/event9876''" "fixture\<lparr>refreshed_devices_at := 95\<rparr>"]
  by (simp add: spec_refresh_forced_def spec_located_def fixture_def startswith_def
      DEV_INPUT_def)

section \<open>Starting without a configuration directory\<close>

text \<open>
  C5. When no configuration directory has been set, \<^verbatim>\<open>start_injecting\<close> returns false
  for every device and preset, and leaves the registry of injectors and the autoload
  history as they were. The model has no exceptional result: the daemon raises nothing
  itself and catches what its collaborators raise.
\<close>

theorem start_injecting_without_config_dir:
  "config_dir s = None \<Longrightarrow>
     \<not> fst (start_injecting device preset s) \<and>
     injectors (snd (start_injecting device preset s)) = injectors s \<and>
     autoload_history (snd (start_injecting device preset s)) = autoload_history s \<and>
     config_dir (snd (start_injecting device preset s)) = None"
  by (simp add: start_injecting_def Let_def log_event_def)

theorem start_injecting_without_config_dir_witness:
  "config_dir fixture = None \<and>
   \<not> fst (start_injecting ''device 1'' ''preset7'' fixture) \<and>
   injectors (snd (start_injecting ''device 1'' ''preset7'' fixture)) = []"
  using start_injecting_without_config_dir [of fixture "''device 1''" "''preset7''"]
  by (simp add: fixture_def)

section \<open>Setting the configuration directory\<close>

text \<open>
  C6. \<^verbatim>\<open>set_config_dir(dir)\<close> with a directory without the manifest
  \<^verbatim>\<open>config.json\<close> changes nothing: the configuration directory stays what it was and
  no configuration is loaded. When the manifest exists, the directory becomes the
  configuration directory and the configuration is loaded from the manifest.
\<close>

theorem set_config_dir_manifest:
  "(\<not> path_exists s (path_join dir [''config.json'']) \<longrightarrow> set_config_dir dir s = s) \<and>
   (path_exists s (path_join dir [''config.json'']) \<longrightarrow>
      config_dir (set_config_dir dir s) = Some dir \<and>
      trace (set_config_dir dir s) =
        trace s @ [Ev_load_config (path_join dir [''config.json''])] \<and>
      set_config_dir dir s =
        config_load_config (path_join dir [''config.json'']) (s\<lparr>config_dir := Some dir\<rparr>))"
  by (simp add: set_config_dir_def Let_def config_load_config_def log_event_def)

theorem set_config_dir_manifest_witness:
  "\<not> path_exists fixture_running (path_join ''/nowhere'' [''config.json'']) \<and>
   set_config_dir ''/nowhere'' fixture_running = fixture_running \<and>
   config_dir fixture_running = Some ''/tmp'' \<and>
   path_exists fixture (path_join ''/tmp'' [''config.json'']) \<and>
   config_dir (set_config_dir ''/tmp'' fixture) = Some ''/tmp'' \<and>
   trace (set_config_dir ''/tmp'' fixture) = [Ev_load_config ''/tmp/config.json'']"
proof -
  have absent: "\<not> path_exists fixture_running (path_join ''/nowhere'' [''config.json''])"
    by (simp add: path_exists_def path_join_def startswith_def fixture_def fixture_running_def)
  have present: "path_exists fixture (path_join ''/tmp'' [''config.json''])"
    by (simp add: path_exists_def path_join_def startswith_def fixture_def)
  have path: "path_join ''/tmp'' [''config.json''] = ''/tmp/config.json''"
    by (simp add: path_join_def startswith_def)
  have before: "config_dir fixture_running = Some ''/tmp''" "trace fixture = []"
    by (simp_all add: fixture_def fixture_running_def)
  from set_config_dir_manifest [of fixture_running "''/nowhere''"] absent
  have unchanged: "set_config_dir ''/nowhere'' fixture_running = fixture_running"
    by blast
  from set_config_dir_manifest [of fixture "''/tmp''"] present
  have "config_dir (set_config_dir ''/tmp'' fixture) = Some ''/tmp''"
    and "trace (set_config_dir ''/tmp'' fixture) =
      trace fixture @ [Ev_load_config (path_join ''/tmp'' [''config.json''])]"
    by blast+
  then have loaded: "config_dir (set_config_dir ''/tmp'' fixture) = Some ''/tmp''"
    "trace (set_config_dir ''/tmp'' fixture) = [Ev_load_config ''/tmp/config.json'']"
    by (simp_all only: path before append_Nil)
  from absent present unchanged before loaded show ?thesis
    by blast
qed

section \<open>Stopping an injection\<close>

text \<open>
  C7. \<^verbatim>\<open>stop_injecting(device)\<close> for a device without an injector in the registry
  changes nothing at all. For a device with an injector it stops that injector, which
  then reports \<^verbatim>\<open>STOPPED\<close>, and removes the entry of the device from the autoload
  history.
\<close>

theorem stop_injecting_effect:
  "(map_of (injectors s) device = None \<longrightarrow> stop_injecting device s = s) \<and>
   (map_of (injectors s) device = Some i \<longrightarrow>
      map_of (injectors (stop_injecting device s)) device =
        Some (i\<lparr>inj_state := STOPPED\<rparr>) \<and>
      autoload_history (stop_injecting device s) device = None)"
  by (cases "autoload_history s device")
     (simp_all add: stop_injecting_def forget_def Injector_stop_injecting_def update_conv')

theorem stop_injecting_effect_witness:
  "map_of (injectors fixture_running) ''gamepad'' = None \<and>
   stop_injecting ''gamepad'' fixture_running = fixture_running \<and>
   map_of (injectors fixture_running) ''device 1'' =
     Some \<lparr>inj_device = ''device 1'', inj_mapping = [(''a'', ''b'')], inj_state = RUNNING\<rparr> \<and>
   get_state (stop_injecting ''device 1'' fixture_running) ''device 1'' = STOPPED \<and>
   autoload_history fixture_running ''device 1'' = Some (90, ''preset7'') \<and>
   autoload_history (stop_injecting ''device 1'' fixture_running) ''device 1'' = None"
  using stop_injecting_effect [of fixture_running "''gamepad''"]
    stop_injecting_effect [of fixture_running "''device 1''"
      "\<lparr>inj_device = ''device 1'', inj_mapping = [(''a'', ''b'')], inj_state = RUNNING\<rparr>"]
  by (simp add: fixture_def fixture_running_def get_state_def)

section \<open>A request for a preset that does not exist\<close>

text \<open>
  C4. When \<^verbatim>\<open>start_injecting(device, preset)\<close> is called while the device it resolves
  to has an injector in the registry, and the file of the preset does not exist under
  the configuration directory, the call returns false and the registry is what it was:
  the injector of the device is neither stopped nor removed, and the autoload history
  is untouched. The file is looked for before the running injector is stopped.
\<close>

theorem start_injecting_missing_preset:
  assumes "config_dir s = Some dir"
    and "path_to_device_name (get_devices (refresh_devices (Some device) s)) device = Some name"
    and "map_of (injectors s) name = Some i"
    and "files s (preset_path dir name preset) = None"
  shows "\<not> fst (start_injecting device preset s) \<and>
         injectors (snd (start_injecting device preset s)) = injectors s \<and>
         map_of (injectors (snd (start_injecting device preset s))) name = Some i \<and>
         autoload_history (snd (start_injecting device preset s)) = autoload_history s"
  using assms by (simp add: start_injecting_def Let_def Mapping_load_def)

text \<open>The running injector of the first device survives a request for the preset
  \<^verbatim>\<open>qux\<close>, which has no file, made through one of the paths of the device.\<close>

theorem start_injecting_missing_preset_witness:
  "config_dir fixture_running = Some ''/tmp'' \<and>
   path_to_device_name
     (get_devices (refresh_devices (Some ''/dev/input/event11'') fixture_running))
     ''/dev/input/event11'' = Some ''device 1'' \<and>
   get_state fixture_running ''device 1'' = RUNNING \<and>
   files fixture_running (preset_path ''/tmp'' ''device 1'' ''qux'') = None \<and>
   \<not> fst (start_injecting ''/dev/input/event11'' ''qux'' fixture_running) \<and>
   get_state (snd (start_injecting ''/dev/input/event11'' ''qux'' fixture_running))
     ''device 1'' = RUNNING"
proof -
  let ?i = "\<lparr>inj_device = ''device 1'', inj_mapping = [(''a'', ''b'')], inj_state = RUNNING\<rparr>"
  have dir: "config_dir fixture_running = Some ''/tmp''"
    by (simp add: eval_defs)
  have name: "path_to_device_name
      (get_devices (refresh_devices (Some ''/dev/input/event11'') fixture_running))
      ''/dev/input/event11'' = Some ''device 1''"
    by (simp add: eval_defs)
  have registered: "map_of (injectors fixture_running) ''device 1'' = Some ?i"
    by (simp add: eval_defs)
  have absent: "files fixture_running (preset_path ''/tmp'' ''device 1'' ''qux'') = None"
    by (simp add: eval_defs)
  from start_injecting_missing_preset [OF dir name registered absent]
  have "\<not> fst (start_injecting ''/dev/input/event11'' ''qux'' fixture_running)"
    and "map_of (injectors (snd (start_injecting ''/dev/input/event11'' ''qux'' fixture_running)))
      ''device 1'' = Some ?i"
    by blast+
  with dir name registered absent show ?thesis
    by (simp add: get_state_def)
qed

section \<open>Stopping all injections clears the autoload history\<close>

text \<open>
  C10. After \<^verbatim>\<open>stop_all()\<close> the autoload history has no entry for any device that had
  an injector in the registry when \<^verbatim>\<open>stop_all\<close> was called, so \<^verbatim>\<open>may_autoload\<close>
  approves the next autoload of such a device, whatever the preset.
\<close>

theorem stop_all_forgets:
  "device \<in> fst ` set (injectors s) \<Longrightarrow>
     autoload_history (stop_all s) device = None \<and>
     fst (may_autoload device preset (stop_all s))"
  using registered_iff [of device "injectors s"]
  by (simp add: stop_all_def stop_each_history may_autoload_def)


theorem stop_all_forgets_witness:
  "''device 1'' \<in> fst ` set (injectors fixture_running) \<and>
   autoload_history fixture_running ''device 1'' = Some (90, ''preset7'') \<and>
   autoload_history (stop_all fixture_running) ''device 1'' = None \<and>
   fst (may_autoload ''device 1'' ''preset7'' (stop_all fixture_running))"
proof -
  have registered: "''device 1'' \<in> fst ` set (injectors fixture_running)"
    by (simp add: eval_defs)
  have before: "autoload_history fixture_running ''device 1'' = Some (90, ''preset7'')"
    by (simp add: eval_defs)
  from stop_all_forgets [OF registered, of "''preset7''"] registered before show ?thesis
    by blast
qed

section \<open>The registry keeps the handle of a stopped injector\<close>





section \<open>Autoloading is debounced\<close>

text \<open>
  C3. Take a device with a configured autoload preset that is known to the registry,
  before and after a refresh, and whose autoload the history does not suppress. A call
  of \<^verbatim>\<open>_autoload\<close> for it invokes \<^verbatim>\<open>start_injecting\<close> once and then records the attempt
  in the history, with the time of the recording. A second call right after it invokes
  \<^verbatim>\<open>start_injecting\<close> again exactly when, at its check of the history, more than 15
  seconds have elapsed since the recording: within the 15 seconds the two calls make one
  invocation, after more than 15 seconds they make two.
\<close>

theorem autoload_debounce:
  assumes now: "resolves_to (get_devices (refresh_devices (Some d) s)) d name"
    and conn: "resolves_to (connected s) d name"
    and conf: "config_get_autoload s name = Some (JStr p)"
    and may: "fst (may_autoload name p (refresh_devices (Some d) s))"
  shows "let s1 = priv_autoload d s;
             s2 = priv_autoload d s1;
             recorded = clock s (clock_reads s1 - 1);
             checked = clock s (Suc (clock_reads s1))
         in calls_between s s1 = [Ev_start_injecting name p, Ev_remember name p] \<and>
            autoload_history s1 name = Some (recorded, p) \<and>
            (checked - recorded \<le> 15 \<longrightarrow>
               calls_between s s2 = [Ev_start_injecting name p, Ev_remember name p]) \<and>
            (15 < checked - recorded \<longrightarrow>
               calls_between s s2 =
                 [Ev_start_injecting name p, Ev_remember name p,
                  Ev_start_injecting name p, Ev_remember name p])"
proof -
  define s1 where "s1 = priv_autoload d s"
  define recorded where "recorded = clock s (clock_reads s1 - 1)"
  define checked where "checked = clock s (Suc (clock_reads s1))"
  define a where "a = refresh_devices (Some d) s1"
  note first = priv_autoload_approved_effect [OF now conf may, folded s1_def]
  from first(1) obtain x where x: "trace s1 = trace s @ x"
    "filter (\<lambda>e. e \<noteq> Ev_refresh_devices) x = [Ev_start_injecting name p, Ev_remember name p]"
    by auto
  have history: "autoload_history s1 name = Some (recorded, p)"
    using first(2) by (simp add: recorded_def)
  have "get_devices a = get_devices s1 \<or> get_devices a = connected s1"
    unfolding a_def by (rule refresh_devices_snapshot)
  with first(4,6) now conn have now': "resolves_to (get_devices a) d name"
    by auto
  have conf': "config_get_autoload s1 name = Some (JStr p)"
    using conf first(5) by (simp add: config_get_autoload_eq [of s1 s])
  have check: "may_autoload name p a =
      (recorded < checked - 15, a\<lparr>clock_reads := Suc (clock_reads a)\<rparr>)"
    using may_autoload_same_preset [of a name recorded p] history first(3)
    by (simp add: a_def checked_def)
  obtain r where r: "trace a = trace s1 @ r" "filter (\<lambda>e. e \<noteq> Ev_refresh_devices) r = []"
    unfolding a_def using refresh_devices_trace by blast
  have within: "calls_between s (priv_autoload d s1) =
      [Ev_start_injecting name p, Ev_remember name p]"
    if "checked - recorded \<le> 15"
  proof -
    from that check have "\<not> fst (may_autoload name p a)"
      by simp
    from priv_autoload_suppressed [OF now' [unfolded a_def] conf' this [unfolded a_def]]
    have "trace (priv_autoload d s1) = trace s @ x @ r"
      by (simp add: a_def [symmetric] r x)
    from calls_between_append [OF this] show ?thesis
      by (simp add: x r)
  qed
  have later: "calls_between s (priv_autoload d s1) =
      [Ev_start_injecting name p, Ev_remember name p,
       Ev_start_injecting name p, Ev_remember name p]"
    if "15 < checked - recorded"
  proof -
    from that check have approved: "fst (may_autoload name p a)"
      by simp
    from priv_autoload_approved_effect(1)
      [OF now' [unfolded a_def] conf' approved [unfolded a_def]]
    obtain y where "trace (priv_autoload d s1) = trace s1 @ y"
      "filter (\<lambda>e. e \<noteq> Ev_refresh_devices) y = [Ev_start_injecting name p, Ev_remember name p]"
      by auto
    then have "trace (priv_autoload d s1) = trace s @ x @ y"
      and "filter (\<lambda>e. e \<noteq> Ev_refresh_devices) (x @ y) =
        [Ev_start_injecting name p, Ev_remember name p,
         Ev_start_injecting name p, Ev_remember name p]"
      by (simp_all add: x)
    with calls_between_append [of "priv_autoload d s1" s "x @ y"] show ?thesis
      by simp
  qed
  have "calls_between s s1 = [Ev_start_injecting name p, Ev_remember name p]"
    using calls_between_append [OF x(1)] x(2) by simp
  with history within later show ?thesis
    by (simp add: Let_def s1_def recorded_def checked_def)
qed


text \<open>The first device is autoloaded at time 100. A second notification one second
  later starts nothing; a second notification 16 seconds later starts the injection
  again.\<close>

theorem autoload_debounce_witness:
  "resolves_to (get_devices (refresh_devices (Some ''/dev/input/event11'') (fixture_at 101)))
     ''/dev/input/event11'' ''device 1'' \<and>
   resolves_to (connected (fixture_at 101)) ''/dev/input/event11'' ''device 1'' \<and>
   config_get_autoload (fixture_at 101) ''device 1'' = Some (JStr ''preset7'') \<and>
   fst (may_autoload ''device 1'' ''preset7''
     (refresh_devices (Some ''/dev/input/event11'') (fixture_at 101))) \<and>
   calls_between (fixture_at 101)
     (priv_autoload ''/dev/input/event11''
       (priv_autoload ''/dev/input/event11'' (fixture_at 101))) =
     [Ev_start_injecting ''device 1'' ''preset7'', Ev_remember ''device 1'' ''preset7''] \<and>
   resolves_to (get_devices (refresh_devices (Some ''/dev/input/event11'') (fixture_at 116)))
     ''/dev/input/event11'' ''device 1'' \<and>
   resolves_to (connected (fixture_at 116)) ''/dev/input/event11'' ''device 1'' \<and>
   config_get_autoload (fixture_at 116) ''device 1'' = Some (JStr ''preset7'') \<and>
   fst (may_autoload ''device 1'' ''preset7''
     (refresh_devices (Some ''/dev/input/event11'') (fixture_at 116))) \<and>
   calls_between (fixture_at 116)
     (priv_autoload ''/dev/input/event11''
       (priv_autoload ''/dev/input/event11'' (fixture_at 116))) =
     [Ev_start_injecting ''device 1'' ''preset7'', Ev_remember ''device 1'' ''preset7'',
      Ev_start_injecting ''device 1'' ''preset7'', Ev_remember ''device 1'' ''preset7'']"
proof -
  let ?d = "''/dev/input/event11''"
  have hyps: "resolves_to (get_devices (refresh_devices (Some ?d) (fixture_at t))) ?d ''device 1''"
    "resolves_to (connected (fixture_at t)) ?d ''device 1''"
    "config_get_autoload (fixture_at t) ''device 1'' = Some (JStr ''preset7'')"
    "fst (may_autoload ''device 1'' ''preset7'' (refresh_devices (Some ?d) (fixture_at t)))"
    for t
    by (simp_all add: eval_defs autoload_eval_defs)
  have reads: "clock_reads (priv_autoload ?d (fixture_at t)) = 3" for t
    by (simp add: eval_defs autoload_eval_defs)
  have times: "clock (fixture_at t) 2 = 100" "clock (fixture_at t) 4 = t" for t
    by (simp_all add: fixture_at_def)
  from autoload_debounce [OF hyps, of 101]
  have one: "calls_between (fixture_at 101) (priv_autoload ?d (priv_autoload ?d (fixture_at 101))) =
      [Ev_start_injecting ''device 1'' ''preset7'', Ev_remember ''device 1'' ''preset7'']"
    by (simp add: Let_def reads times)
  from autoload_debounce [OF hyps, of 116]
  have two: "calls_between (fixture_at 116) (priv_autoload ?d (priv_autoload ?d (fixture_at 116))) =
      [Ev_start_injecting ''device 1'' ''preset7'', Ev_remember ''device 1'' ''preset7'',
       Ev_start_injecting ''device 1'' ''preset7'', Ev_remember ''device 1'' ''preset7'']"
    by (simp add: Let_def reads times)
  from hyps one two show ?thesis
    by blast
qed

end
